theory Spec2Isabelle
  imports Main "HOL-Library.Multiset"
begin

section \<open>Sensor handlers of the IoT server\<close>

text \<open>
  A shallow embedding of \<^verbatim>\<open>internal/handlers/sensor.handler.go\<close>. Each handler
  method of \<^verbatim>\<open>SensorHandler\<close> becomes a function of the handler's collaborators, the
  request context and the persisted database state. It returns the Go \<^verbatim>\<open>error\<close>
  the method returns, the persisted state afterwards, and the sequence of collaborator
  calls it made, each with the error that call returned.
\<close>

subsection \<open>Errors, entities, responses\<close>

text \<open>
  A Go \<^verbatim>\<open>error\<close> value: either the \<^verbatim>\<open>*fiber.Error\<close> built by
  \<^verbatim>\<open>fiber.NewError(code, message)\<close>, or any other error a collaborator hands back.
\<close>

datatype error = NewError int string | OtherError string

text \<open>
  The entity structs live in the package \<^verbatim>\<open>entities\<close>. The handlers read only the
  fields below; \<^verbatim>\<open>Sensor\<close> and \<^verbatim>\<open>SensorUpdate\<close> are never inspected and stay
  type parameters (\<open>'s\<close> and \<open>'u\<close>). A channel carries its \<^verbatim>\<open>Time\<close>, an instant
  modelled as an integer, and a payload \<open>Value\<close> standing for its remaining fields.
\<close>

record User =
  IdUser :: int
  IsAdmin :: bool

record Node =
  IdUser :: int

record Hardware =
  Type :: string

record SensorCreate =
  IdNode :: int
  IdHardware :: int

record 'v SensorChannel =
  Time :: int
  Value :: 'v

text \<open>
  A value bound in a \<^verbatim>\<open>fiber.Map\<close> or serialised by \<^verbatim>\<open>c.JSON\<close>. A
  \<^verbatim>\<open>fiber.Map\<close> is written as the list of its bindings, in the order of the source.
\<close>

datatype ('s, 'v) val =
    Str string
  | Bool bool
  | Sensor 's
  | Sensors "'s list"
  | Channels "'v SensorChannel list"
  | SensorWithChannel 's "'v SensorChannel list"

text \<open>
  What a handler writes to the client: \<^verbatim>\<open>c.Status(code).SendString(body)\<close>,
  \<^verbatim>\<open>c.Status(code).JSON(body)\<close> or \<^verbatim>\<open>c.Render(name, bind, layout)\<close>.
\<close>

datatype ('s, 'v) response =
    SendString int string
  | JSON int "('s, 'v) val"
  | Render string "(string \<times> ('s, 'v) val) list" string

subsection \<open>Collaborators\<close>

text \<open>
  The calls a handler makes on its collaborators, as they appear in the trace of a
  request. The repository calls carry their arguments.
\<close>

datatype ('s, 'u, 'v) call =
    CallParseBody
  | CallParseIdFromUrlParameter
  | CallBegin
  | CallGetAuthentication
  | CallNodeGetById int
  | CallHardwareGetById int
  | CallCreate SensorCreate
  | CallGetAll User
  | CallGetById int
  | CallGetSensorChannel int
  | CallGetIdUserWhoOwnSensorById int
  | CallUpdate 's 'u
  | CallDelete int
  | CallRespond "('s, 'v) response"
  | CallCommit
  | CallRollback


fun is_mutation :: "('s, 'u, 'v) call \<Rightarrow> bool" where
  "is_mutation (CallCreate _) = True"
| "is_mutation (CallUpdate _ _) = True"
| "is_mutation (CallDelete _) = True"
| "is_mutation _ = False"

text \<open>
  The collaborators held by \<^verbatim>\<open>SensorHandler\<close>: the connection pool and the three
  repositories. Their code is outside this file, so each is a parameter. \<open>'db\<close> is the
  state of the database as a transaction sees it. A read returns an error or a value; a
  mutation returns its error and the state it leaves in the transaction.
\<close>

record ('s, 'u, 'v, 'db) SensorHandler =
  db_Begin :: "error option"
  nodeRepository_GetById :: "'db \<Rightarrow> int \<Rightarrow> error + Node"
  hardwareRepository_GetById :: "'db \<Rightarrow> int \<Rightarrow> error + Hardware"
  repository_Create :: "'db \<Rightarrow> SensorCreate \<Rightarrow> error option \<times> 'db"
  repository_GetAll :: "'db \<Rightarrow> User \<Rightarrow> error + 's list"
  repository_GetById :: "'db \<Rightarrow> int \<Rightarrow> error + 's"
  repository_GetSensorChannel :: "'db \<Rightarrow> int \<Rightarrow> error + 'v SensorChannel list"
  repository_GetIdUserWhoOwnSensorById :: "'db \<Rightarrow> int \<Rightarrow> error + int"
  repository_Update :: "'db \<Rightarrow> 's \<Rightarrow> 'u \<Rightarrow> error option \<times> 'db"
  repository_Delete :: "'db \<Rightarrow> int \<Rightarrow> error option \<times> 'db"

text \<open>
  The request \<^verbatim>\<open>c *fiber.Ctx\<close>, seen through what the validator and the framework
  extract from it: the parsed body (as \<^verbatim>\<open>SensorCreate\<close> or \<^verbatim>\<open>SensorUpdate\<close>), the
  id of the URL, the authenticated user, the offer that \<^verbatim>\<open>c.Accepts\<close> selects, and
  the error the framework returns when a response is written.
\<close>

record ('s, 'u, 'v) Ctx =
  ParseBody_SensorCreate :: "error + SensorCreate"
  ParseBody_SensorUpdate :: "error + 'u"
  ParseIdFromUrlParameter :: "error + int"
  GetAuthentication :: "error + User"
  Accepts :: "string list \<Rightarrow> string"
  Send :: "('s, 'v) response \<Rightarrow> error option"

subsection \<open>Results and the error-return idiom\<close>

record ('s, 'u, 'v, 'db) result =
  returned :: "error option"
  state :: "'db"
  calls :: "(('s, 'u, 'v) call \<times> error option) list"

text \<open>
  \<^verbatim>\<open>x, err := f(...); if err != nil { return err }\<close>: the call is logged with its
  error; on an error the method returns it, otherwise it goes on with the value.
\<close>

definition try_call ::
  "('s, 'u, 'v) call \<Rightarrow> error + 'a \<Rightarrow> 'db \<Rightarrow> ('a \<Rightarrow> ('s, 'u, 'v, 'db) result)
     \<Rightarrow> ('s, 'u, 'v, 'db) result" where
  "try_call c r tx k =
     (case r of
        Inl err \<Rightarrow> \<lparr>returned = Some err, state = tx, calls = [(c, Some err)]\<rparr>
      | Inr x \<Rightarrow> (let rest = k x in rest\<lparr>calls := (c, None) # calls rest\<rparr>))"

text \<open>The same idiom for a mutation, which leaves a new state in the transaction.\<close>

definition try_mutation ::
  "('s, 'u, 'v) call \<Rightarrow> error option \<times> 'db \<Rightarrow> ('db \<Rightarrow> ('s, 'u, 'v, 'db) result)
     \<Rightarrow> ('s, 'u, 'v, 'db) result" where
  "try_mutation c r k =
     (case r of
        (Some err, tx') \<Rightarrow> \<lparr>returned = Some err, state = tx', calls = [(c, Some err)]\<rparr>
      | (None, tx') \<Rightarrow> (let rest = k tx' in rest\<lparr>calls := (c, None) # calls rest\<rparr>))"

text \<open>\<^verbatim>\<open>return fiber.NewError(code, message)\<close>.\<close>

definition return_error :: "error \<Rightarrow> 'db \<Rightarrow> ('s, 'u, 'v, 'db) result" where
  "return_error err tx = \<lparr>returned = Some err, state = tx, calls = []\<rparr>"

text \<open>
  \<^verbatim>\<open>return c.Status(..).SendString(..)\<close>, \<^verbatim>\<open>return c.Status(..).JSON(..)\<close> and
  \<^verbatim>\<open>return c.Render(..)\<close>: the method returns whatever error the writer returns.
\<close>

definition respond ::
  "('s, 'u, 'v) Ctx \<Rightarrow> ('s, 'v) response \<Rightarrow> 'db \<Rightarrow> ('s, 'u, 'v, 'db) result" where
  "respond c resp tx =
     \<lparr>returned = Send c resp, state = tx, calls = [(CallRespond resp, Send c resp)]\<rparr>"

text \<open>
  \<^verbatim>\<open>tx, err := h.db.Begin(ctx)\<close>: a transaction starts from the persisted state.
\<close>

definition Begin :: "('s, 'u, 'v, 'db) SensorHandler \<Rightarrow> 'db \<Rightarrow> error + 'db" where
  "Begin h db = (case db_Begin h of Some err \<Rightarrow> Inl err | None \<Rightarrow> Inr db)"

text \<open>
  Modelled from the spec: \<^verbatim>\<open>helper.CommitOrRollback(ctx, tx, &err)\<close>, a function of
  the package \<^verbatim>\<open>helper\<close>, which the handler's file only calls. The spec's words are
  "begin, operations, commit-or-rollback deferred" and "the transaction rollback on any
  error is the sole recovery mechanism": run as the deferred call, it reads the error the
  method is about to return, rolls the transaction back when there is one (the persisted
  state stays \<open>db\<close>) and commits otherwise (the transaction's state becomes the
  persisted one). It leaves the returned error as it is: "errors ... are returned
  unchanged". A commit that fails is not modelled; the spec is silent about it.
\<close>

definition CommitOrRollback ::
  "'db \<Rightarrow> ('s, 'u, 'v, 'db) result \<Rightarrow> ('s, 'u, 'v, 'db) result" where
  "CommitOrRollback db r =
     (case returned r of
        Some err \<Rightarrow> r\<lparr>state := db, calls := calls r @ [(CallRollback, None)]\<rparr>
      | None \<Rightarrow> r\<lparr>calls := calls r @ [(CallCommit, None)]\<rparr>)"

subsection \<open>Library functions the handlers call\<close>

text \<open>
  \<^verbatim>\<open>strings.ToLower\<close> on the bytes of a string: an ASCII capital becomes its small
  letter. Go lowers the letters beyond ASCII by their Unicode case as well. The handler only
  compares the result with \<^verbatim>\<open>sensor\<close>, and the only letters beyond ASCII whose small
  form is an ASCII letter are U+0130 and U+212A, which give \<^verbatim>\<open>i\<close> and \<^verbatim>\<open>k\<close>; so a
  string with a byte from 128 on never lowers to \<^verbatim>\<open>sensor\<close>, in Go as here, where
  such bytes are left as they are.
\<close>

definition toLower_byte :: "char \<Rightarrow> char" where
  "toLower_byte b =
     (let n = (of_char b :: nat) in if 65 \<le> n \<and> n \<le> 90 then char_of (n + 32) else b)"

definition ToLower :: "string \<Rightarrow> string" where
  "ToLower s = map toLower_byte s"

text \<open>\<^verbatim>\<open>fmt.Sprintf("%d", n)\<close>: the decimal digits of an integer, with its sign.\<close>

fun digits :: "nat \<Rightarrow> string" where
  "digits n =
     (if n < 10 then [char_of (48 + n)]
      else digits (n div 10) @ [char_of (48 + n mod 10)])"

definition Sprintf_d :: "int \<Rightarrow> string" where
  "Sprintf_d n = (if n < 0 then CHR ''-'' # digits (nat (- n)) else digits (nat n))"

text \<open>\<^verbatim>\<open>t.Before(u)\<close> of \<^verbatim>\<open>time.Time\<close>: the instant \<open>t\<close> is earlier than \<open>u\<close>.\<close>

definition Before :: "int \<Rightarrow> int \<Rightarrow> bool" where
  "Before t u = (t < u)"

text \<open>
  \<^verbatim>\<open>sort.Slice(x, less)\<close> sorts \<open>x\<close> in place by \<open>less\<close> and promises no stability.
  The model is the insertion sort that Go runs on slices of at most twelve elements: each
  element in turn moves towards the front while \<open>less\<close> (here \<open>lt\<close>) puts it before
  its left neighbour. The sorted prefix is kept back to front, so that the neighbour is the
  head of the list. On longer slices Go sorts by another algorithm, whose result can differ
  only in the order of elements that \<open>less\<close> does not separate.
\<close>

fun insert_left :: "('a \<Rightarrow> 'a \<Rightarrow> bool) \<Rightarrow> 'a \<Rightarrow> 'a list \<Rightarrow> 'a list" where
  "insert_left lt x [] = [x]"
| "insert_left lt x (y # ys) =
     (if lt x y then y # insert_left lt x ys else x # y # ys)"

definition sort_Slice :: "('a \<Rightarrow> 'a \<Rightarrow> bool) \<Rightarrow> 'a list \<Rightarrow> 'a list" where
  "sort_Slice lt xs = rev (foldl (\<lambda>sorted_prefix x. insert_left lt x sorted_prefix) [] xs)"

text \<open>
  The typographic apostrophe of the 403 messages of \<^verbatim>\<open>Create\<close>, \<^verbatim>\<open>GetById\<close> and
  \<^verbatim>\<open>Update\<close> (U+2019, three bytes in UTF-8); the message of \<^verbatim>\<open>Delete\<close> has the
  ASCII one.
\<close>

definition rsquo :: string where
  "rsquo = [CHR 0xE2, CHR 0x80, CHR 0x99]"

definition apostrophe :: string where
  "apostrophe = [CHR 0x27]"

definition msg_hardware_type :: string where
  "msg_hardware_type = ''Hardware type not match, type should be sensor''"

definition msg_create_forbidden :: string where
  "msg_create_forbidden = ''You can'' @ rsquo @ ''t use other user'' @ rsquo @ ''s node''"

definition msg_see_forbidden :: string where
  "msg_see_forbidden = ''You can'' @ rsquo @ ''t see another user'' @ rsquo @ ''s sensor''"

definition msg_edit_forbidden :: string where
  "msg_edit_forbidden = ''You can'' @ rsquo @ ''t edit another user'' @ rsquo @ ''s sensor''"

definition msg_delete_forbidden :: string where
  "msg_delete_forbidden =
     ''You can'' @ apostrophe @ ''t delete another user'' @ apostrophe @ ''s sensor''"

subsection \<open>The handlers\<close>

definition CreateForm :: "('s, 'u, 'v) Ctx \<Rightarrow> 'db \<Rightarrow> ('s, 'u, 'v, 'db) result" where
  "CreateForm c db =
     respond c (Render ''sensor_form'' [(''title'', Str ''Create Sensor'')] ''layouts/main'') db"

definition Create ::
  "('s, 'u, 'v, 'db) SensorHandler \<Rightarrow> ('s, 'u, 'v) Ctx \<Rightarrow> 'db \<Rightarrow> ('s, 'u, 'v, 'db) result" where
  "Create h c db =
     try_call CallParseBody (ParseBody_SensorCreate c) db (\<lambda>bodyPayload.
     try_call CallBegin (Begin h db) db (\<lambda>tx.
     CommitOrRollback db (
       try_call (CallNodeGetById (IdNode bodyPayload))
         (nodeRepository_GetById h tx (IdNode bodyPayload)) tx (\<lambda>node.
       try_call (CallHardwareGetById (IdHardware bodyPayload))
         (hardwareRepository_GetById h tx (IdHardware bodyPayload)) tx (\<lambda>hardware.
       let hardwareType = ToLower (Type hardware) in
       if hardwareType \<noteq> ''sensor'' then return_error (NewError 400 msg_hardware_type) tx
       else
       try_call CallGetAuthentication (GetAuthentication c) tx (\<lambda>currentUser.
       if User.IdUser currentUser \<noteq> Node.IdUser node
       then return_error (NewError 403 msg_create_forbidden) tx
       else
       try_mutation (CallCreate bodyPayload) (repository_Create h tx bodyPayload) (\<lambda>tx'.
       respond c (SendString 201 ''Success add new sensor'') tx')))))))"


definition GetById ::
  "('s, 'u, 'v, 'db) SensorHandler \<Rightarrow> ('s, 'u, 'v) Ctx \<Rightarrow> 'db \<Rightarrow> ('s, 'u, 'v, 'db) result" where
  "GetById h c db =
     try_call CallParseIdFromUrlParameter (ParseIdFromUrlParameter c) db (\<lambda>id.
     try_call CallBegin (Begin h db) db (\<lambda>tx.
     CommitOrRollback db (
       try_call (CallGetById id) (repository_GetById h tx id) tx (\<lambda>sensor.
       try_call (CallGetSensorChannel id) (repository_GetSensorChannel h tx id) tx (\<lambda>channels.
       try_call (CallGetIdUserWhoOwnSensorById id)
         (repository_GetIdUserWhoOwnSensorById h tx id) tx (\<lambda>sensorOwnerId.
       try_call CallGetAuthentication (GetAuthentication c) tx (\<lambda>currentUser.
       if sensorOwnerId \<noteq> User.IdUser currentUser \<and> \<not> IsAdmin currentUser
       then return_error (NewError 403 msg_see_forbidden) tx
       else
       let accept = Accepts c [''application/json'', ''text/html''] in
       if accept = ''text/html''
       then
         (let channels' = sort_Slice (\<lambda>ci cj. Before (Time ci) (Time cj)) channels in
          respond c
            (Render ''sensor_detail''
               [(''title'', Str ''Sensor Detail''), (''sensor'', Sensor sensor),
                (''channel'', Channels channels')]
               ''layouts/main'') tx)
       else
         (let sensorWithChannelItem = SensorWithChannel sensor channels in
          respond c (JSON 200 sensorWithChannelItem) tx))))))))"

definition UpdateForm ::
  "('s, 'u, 'v, 'db) SensorHandler \<Rightarrow> ('s, 'u, 'v) Ctx \<Rightarrow> 'db \<Rightarrow> ('s, 'u, 'v, 'db) result" where
  "UpdateForm h c db =
     try_call CallParseIdFromUrlParameter (ParseIdFromUrlParameter c) db (\<lambda>id.
     try_call CallBegin (Begin h db) db (\<lambda>tx.
     CommitOrRollback db (
       try_call (CallGetById id) (repository_GetById h tx id) tx (\<lambda>sensor.
       respond c
         (Render ''sensor_form''
            [(''title'', Str ''Edit Sensor''), (''sensor'', Sensor sensor), (''edit'', Bool True)]
            ''layouts/main'') tx))))"

definition Update ::
  "('s, 'u, 'v, 'db) SensorHandler \<Rightarrow> ('s, 'u, 'v) Ctx \<Rightarrow> 'db \<Rightarrow> ('s, 'u, 'v, 'db) result" where
  "Update h c db =
     try_call CallParseIdFromUrlParameter (ParseIdFromUrlParameter c) db (\<lambda>id.
     try_call CallParseBody (ParseBody_SensorUpdate c) db (\<lambda>bodyPayload.
     try_call CallBegin (Begin h db) db (\<lambda>tx.
     CommitOrRollback db (
       try_call (CallGetById id) (repository_GetById h tx id) tx (\<lambda>sensor.
       try_call (CallGetIdUserWhoOwnSensorById id)
         (repository_GetIdUserWhoOwnSensorById h tx id) tx (\<lambda>sensorOwnerId.
       try_call CallGetAuthentication (GetAuthentication c) tx (\<lambda>currentUser.
       if sensorOwnerId \<noteq> User.IdUser currentUser \<and> \<not> IsAdmin currentUser
       then return_error (NewError 403 msg_edit_forbidden) tx
       else
       try_mutation (CallUpdate sensor bodyPayload) (repository_Update h tx sensor bodyPayload)
         (\<lambda>tx'.
       respond c (SendString 200 ''Success edit sensor'') tx'))))))))"

definition Delete ::
  "('s, 'u, 'v, 'db) SensorHandler \<Rightarrow> ('s, 'u, 'v) Ctx \<Rightarrow> 'db \<Rightarrow> ('s, 'u, 'v, 'db) result" where
  "Delete h c db =
     try_call CallParseIdFromUrlParameter (ParseIdFromUrlParameter c) db (\<lambda>id.
     try_call CallBegin (Begin h db) db (\<lambda>tx.
     CommitOrRollback db (
       try_call (CallGetIdUserWhoOwnSensorById id)
         (repository_GetIdUserWhoOwnSensorById h tx id) tx (\<lambda>sensorOwnerId.
       try_call CallGetAuthentication (GetAuthentication c) tx (\<lambda>currentUser.
       if sensorOwnerId \<noteq> User.IdUser currentUser \<and> \<not> IsAdmin currentUser
       then return_error (NewError 403 msg_delete_forbidden) tx
       else
       try_mutation (CallDelete id) (repository_Delete h tx id) (\<lambda>tx'.
       respond c (SendString 200 (''Success delete sensor, id: '' @ Sprintf_d id)) tx'))))))"

subsection \<open>Reading a result\<close>

text \<open>The responses written during a request, and the mutations asked of the repository.\<close>

definition responses :: "('s, 'u, 'v, 'db) result \<Rightarrow> ('s, 'v) response list" where
  "responses r =
     concat (map (\<lambda>x. case fst x of CallRespond resp \<Rightarrow> [resp] | _ \<Rightarrow> []) (calls r))"

definition mutation_calls :: "('s, 'u, 'v, 'db) result \<Rightarrow> ('s, 'u, 'v) call list" where
  "mutation_calls r = filter is_mutation (map fst (calls r))"


subsection \<open>A small deployment to run the handlers on\<close>

text \<open>
  The database is the list of the sensor ids it holds; a sensor and an update payload are
  a name. User 1 owns node 10 and every sensor; hardware 20 is a sensor, hardware 21 is
  not.
\<close>

definition example_handler :: "(string, string, int, int list) SensorHandler" where
  "example_handler =
     \<lparr>db_Begin = None,
      nodeRepository_GetById =
        (\<lambda>tx i. if i = 10 then Inr \<lparr>Node.IdUser = 1\<rparr> else Inl (OtherError ''no rows'')),
      hardwareRepository_GetById =
        (\<lambda>tx i. if i = 20 then Inr \<lparr>Type = ''Sensor''\<rparr>
                 else if i = 21 then Inr \<lparr>Type = ''Microcontroller''\<rparr>
                 else Inl (OtherError ''no rows'')),
      repository_Create = (\<lambda>tx p. (None, tx @ [8])),
      repository_GetAll = (\<lambda>tx u. Inr (map (\<lambda>i. ''thermometer'') tx)),
      repository_GetById =
        (\<lambda>tx i. if i \<in> set tx then Inr ''thermometer'' else Inl (OtherError ''no rows'')),
      repository_GetSensorChannel =
        (\<lambda>tx i. Inr [\<lparr>Time = 30, Value = 5\<rparr>, \<lparr>Time = 10, Value = 7\<rparr>, \<lparr>Time = 20, Value = 6\<rparr>]),
      repository_GetIdUserWhoOwnSensorById =
        (\<lambda>tx i. if i \<in> set tx then Inr 1 else Inl (OtherError ''no rows'')),
      repository_Update = (\<lambda>tx s u. (None, tx)),
      repository_Delete = (\<lambda>tx i. (None, removeAll i tx))\<rparr>"

definition example_db :: "int list" where
  "example_db = [7]"

definition owner :: User where
  "owner = \<lparr>User.IdUser = 1, IsAdmin = False\<rparr>"

definition stranger :: User where
  "stranger = \<lparr>User.IdUser = 2, IsAdmin = False\<rparr>"

definition admin :: User where
  "admin = \<lparr>User.IdUser = 3, IsAdmin = True\<rparr>"

text \<open>
  A request for sensor 7 by the given user, whose body names node 10 and the given
  hardware, and whose \<^verbatim>\<open>Accept\<close> header makes \<^verbatim>\<open>c.Accepts\<close> choose \<open>accept\<close>.
\<close>

definition example_ctx :: "User \<Rightarrow> int \<Rightarrow> string \<Rightarrow> (string, string, int) Ctx" where
  "example_ctx user hardware accept =
     \<lparr>ParseBody_SensorCreate = Inr \<lparr>IdNode = 10, IdHardware = hardware\<rparr>,
      ParseBody_SensorUpdate = Inr ''hygrometer'',
      ParseIdFromUrlParameter = Inr 7,
      GetAuthentication = Inr user,
      Accepts = (\<lambda>offers. if accept \<in> set offers then accept else []),
      Send = (\<lambda>resp. None)\<rparr>"

section \<open>Properties\<close>

subsection \<open>The error-return idiom, step by step\<close>

lemma try_call_Inl:
  "try_call c (Inl err) tx k = \<lparr>returned = Some err, state = tx, calls = [(c, Some err)]\<rparr>"
  by (simp add: try_call_def)

lemma try_call_Inr:
  "returned (try_call c (Inr x) tx k) = returned (k x)"
  "state (try_call c (Inr x) tx k) = state (k x)"
  "calls (try_call c (Inr x) tx k) = (c, None) # calls (k x)"
  by (simp_all add: try_call_def Let_def)

lemma try_mutation_Some:
  "try_mutation c (Some err, tx') k =
     \<lparr>returned = Some err, state = tx', calls = [(c, Some err)]\<rparr>"
  by (simp add: try_mutation_def)

lemma try_mutation_None:
  "returned (try_mutation c (None, tx') k) = returned (k tx')"
  "state (try_mutation c (None, tx') k) = state (k tx')"
  "calls (try_mutation c (None, tx') k) = (c, None) # calls (k tx')"
  by (simp_all add: try_mutation_def Let_def)

lemma CommitOrRollback_sel:
  "returned (CommitOrRollback db r) = returned r"
  "state (CommitOrRollback db r) = (if returned r = None then state r else db)"
  "calls (CommitOrRollback db r) =
     calls r @ [(if returned r = None then CallCommit else CallRollback, None)]"
  by (simp_all add: CommitOrRollback_def split: option.splits)

lemma return_error_sel:
  "returned (return_error err tx) = Some err"
  "state (return_error err tx) = tx"
  "calls (return_error err tx) = []"
  by (simp_all add: return_error_def)

lemma respond_sel:
  "returned (respond c resp tx) = Send c resp"
  "state (respond c resp tx) = tx"
  "calls (respond c resp tx) = [(CallRespond resp, Send c resp)]"
  by (simp_all add: respond_def)

lemmas step_sel = try_call_Inl try_call_Inr try_mutation_Some try_mutation_None
  CommitOrRollback_sel return_error_sel respond_sel

lemma Begin_ok: "db_Begin h = None \<Longrightarrow> Begin h db = Inr db"
  by (simp add: Begin_def)

text \<open>Facts about the small deployment, for running the handlers on it.\<close>

lemma ToLower_Sensor: "ToLower ''Sensor'' = ''sensor''"
  by code_simp

lemma ToLower_Microcontroller: "ToLower ''Microcontroller'' \<noteq> ''sensor''"
  by code_simp

lemmas example_defs = example_handler_def example_ctx_def example_db_def owner_def
  stranger_def admin_def ToLower_Sensor ToLower_Microcontroller

subsection \<open>Ownership and authorization\<close>

text \<open>
  C1. In \<^verbatim>\<open>GetById\<close>, \<^verbatim>\<open>Update\<close> and \<^verbatim>\<open>Delete\<close>, once the id is parsed, the
  transaction is open and the owner id and the current user are known (and, where the
  method fetches them first, the sensor, its channels and the body): if the owner id is not
  the current user's and the user is no admin, the method returns the 403 error and asks
  the repository for no mutation (and \<^verbatim>\<open>GetById\<close> writes no response); otherwise the
  check passes and the operation goes on: \<^verbatim>\<open>GetById\<close> writes a response,
  \<^verbatim>\<open>Update\<close> calls \<^verbatim>\<open>repository.Update\<close> and \<^verbatim>\<open>Delete\<close> calls
  \<^verbatim>\<open>repository.Delete\<close>.
\<close>

theorem owner_or_admin_check:
  assumes "ParseIdFromUrlParameter c = Inr sensorId" and "db_Begin h = None"
    and "repository_GetIdUserWhoOwnSensorById h db sensorId = Inr sensorOwnerId"
    and "GetAuthentication c = Inr currentUser"
  shows
   "(repository_GetById h db sensorId = Inr sensor
       \<and> repository_GetSensorChannel h db sensorId = Inr channels \<longrightarrow>
     (if sensorOwnerId \<noteq> User.IdUser currentUser \<and> \<not> IsAdmin currentUser
      then returned (GetById h c db) = Some (NewError 403 msg_see_forbidden)
         \<and> responses (GetById h c db) = []
         \<and> mutation_calls (GetById h c db) = []
      else responses (GetById h c db) \<noteq> []))
  \<and> (ParseBody_SensorUpdate c = Inr bodyPayload
       \<and> repository_GetById h db sensorId = Inr sensor \<longrightarrow>
     (if sensorOwnerId \<noteq> User.IdUser currentUser \<and> \<not> IsAdmin currentUser
      then returned (Update h c db) = Some (NewError 403 msg_edit_forbidden)
         \<and> mutation_calls (Update h c db) = []
      else mutation_calls (Update h c db) = [CallUpdate sensor bodyPayload]))
  \<and> (if sensorOwnerId \<noteq> User.IdUser currentUser \<and> \<not> IsAdmin currentUser
      then returned (Delete h c db) = Some (NewError 403 msg_delete_forbidden)
         \<and> mutation_calls (Delete h c db) = []
      else mutation_calls (Delete h c db) = [CallDelete sensorId])"
proof -
  have upd: "mutation_calls (Update h c db) = [CallUpdate sensor bodyPayload]"
    if "ParseBody_SensorUpdate c = Inr bodyPayload"
      and "repository_GetById h db sensorId = Inr sensor"
      and "\<not> (sensorOwnerId \<noteq> User.IdUser currentUser \<and> \<not> IsAdmin currentUser)"
  proof (cases "repository_Update h db sensor bodyPayload")
    case (Pair e tx')
    with that assms show ?thesis
      by (cases e) (auto simp add: Update_def step_sel Begin_ok mutation_calls_def)
  qed
  have del: "mutation_calls (Delete h c db) = [CallDelete sensorId]"
    if "\<not> (sensorOwnerId \<noteq> User.IdUser currentUser \<and> \<not> IsAdmin currentUser)"
  proof (cases "repository_Delete h db sensorId")
    case (Pair e tx')
    with that assms show ?thesis
      by (cases e) (auto simp add: Delete_def step_sel Begin_ok mutation_calls_def)
  qed
  show ?thesis
    using assms upd del
    by (auto simp add: GetById_def Update_def Delete_def step_sel Begin_ok responses_def
        mutation_calls_def Let_def)
qed

text \<open>
  On the small deployment: the stranger is refused by all three methods and nothing is
  mutated; the owner's update and the admin's delete reach the repository.
\<close>

theorem owner_or_admin_check_witness:
  "returned (GetById example_handler (example_ctx stranger 20 []) example_db)
     = Some (NewError 403 msg_see_forbidden)
 \<and> returned (Update example_handler (example_ctx stranger 20 []) example_db)
     = Some (NewError 403 msg_edit_forbidden)
 \<and> mutation_calls (Update example_handler (example_ctx stranger 20 []) example_db) = []
 \<and> returned (Delete example_handler (example_ctx stranger 20 []) example_db)
     = Some (NewError 403 msg_delete_forbidden)
 \<and> mutation_calls (Delete example_handler (example_ctx stranger 20 []) example_db) = []
 \<and> mutation_calls (Update example_handler (example_ctx owner 20 []) example_db)
     = [CallUpdate ''thermometer'' ''hygrometer'']
 \<and> mutation_calls (Delete example_handler (example_ctx admin 20 []) example_db)
     = [CallDelete 7]
 \<and> responses (GetById example_handler (example_ctx admin 20 []) example_db) \<noteq> []"
  using
    owner_or_admin_check [where h = example_handler and c = "example_ctx stranger 20 []"
      and db = example_db and sensorId = 7 and sensorOwnerId = 1 and currentUser = stranger
      and sensor = "''thermometer''" and bodyPayload = "''hygrometer''"
      and channels = "[\<lparr>Time = 30, Value = 5\<rparr>, \<lparr>Time = 10, Value = 7\<rparr>, \<lparr>Time = 20, Value = 6\<rparr>]"]
    owner_or_admin_check [where h = example_handler and c = "example_ctx owner 20 []"
      and db = example_db and sensorId = 7 and sensorOwnerId = 1 and currentUser = owner
      and sensor = "''thermometer''" and bodyPayload = "''hygrometer''"
      and channels = "[\<lparr>Time = 30, Value = 5\<rparr>, \<lparr>Time = 10, Value = 7\<rparr>, \<lparr>Time = 20, Value = 6\<rparr>]"]
    owner_or_admin_check [where h = example_handler and c = "example_ctx admin 20 []"
      and db = example_db and sensorId = 7 and sensorOwnerId = 1 and currentUser = admin
      and sensor = "''thermometer''" and bodyPayload = "''hygrometer''"
      and channels = "[\<lparr>Time = 30, Value = 5\<rparr>, \<lparr>Time = 10, Value = 7\<rparr>, \<lparr>Time = 20, Value = 6\<rparr>]"]
  by (simp add: example_defs)

subsection \<open>Creating a sensor\<close>

text \<open>
  C2. In \<^verbatim>\<open>Create\<close>, once the body is parsed, the transaction is open and the node and
  the hardware are found: a hardware whose lowercased type is not \<^verbatim>\<open>sensor\<close> gives the
  400 error; a matching type with a current user who is not the node's owner gives the 403
  error; in both cases the repository is asked for nothing and no response is written. When
  both checks pass, \<^verbatim>\<open>repository.Create\<close> is called with the body and, if it
  succeeds, the response is status 201. Conversely, a call of \<^verbatim>\<open>repository.Create\<close> or
  a written response means that both checks passed.
\<close>

theorem Create_hardware_type_then_ownership:
  assumes "ParseBody_SensorCreate c = Inr bodyPayload" and "db_Begin h = None"
    and "nodeRepository_GetById h db (IdNode bodyPayload) = Inr node"
    and "hardwareRepository_GetById h db (IdHardware bodyPayload) = Inr hardware"
  shows
   "(ToLower (Type hardware) \<noteq> ''sensor'' \<longrightarrow>
       returned (Create h c db) = Some (NewError 400 msg_hardware_type)
     \<and> mutation_calls (Create h c db) = [] \<and> responses (Create h c db) = [])
  \<and> (ToLower (Type hardware) = ''sensor'' \<and> GetAuthentication c = Inr currentUser
       \<and> User.IdUser currentUser \<noteq> Node.IdUser node \<longrightarrow>
       returned (Create h c db) = Some (NewError 403 msg_create_forbidden)
     \<and> mutation_calls (Create h c db) = [] \<and> responses (Create h c db) = [])
  \<and> (ToLower (Type hardware) = ''sensor'' \<and> GetAuthentication c = Inr currentUser
       \<and> User.IdUser currentUser = Node.IdUser node \<longrightarrow>
       mutation_calls (Create h c db) = [CallCreate bodyPayload]
     \<and> (fst (repository_Create h db bodyPayload) = None \<longrightarrow>
          responses (Create h c db) = [SendString 201 ''Success add new sensor'']))
  \<and> (mutation_calls (Create h c db) \<noteq> [] \<or> responses (Create h c db) \<noteq> [] \<longrightarrow>
       ToLower (Type hardware) = ''sensor''
     \<and> (\<exists>u. GetAuthentication c = Inr u \<and> User.IdUser u = Node.IdUser node))"
proof -
  obtain e tx' where cr: "repository_Create h db bodyPayload = (e, tx')"
    by (cases "repository_Create h db bodyPayload")
  show ?thesis
    using assms cr
    by (cases e; cases "GetAuthentication c")
       (auto simp add: Create_def step_sel Begin_ok responses_def mutation_calls_def Let_def)
qed

text \<open>
  On the small deployment: hardware 21 is refused with 400, the stranger with 403, and the
  owner's sensor is created and answered with 201.
\<close>

theorem Create_hardware_type_then_ownership_witness:
  "returned (Create example_handler (example_ctx owner 21 []) example_db)
     = Some (NewError 400 msg_hardware_type)
 \<and> mutation_calls (Create example_handler (example_ctx owner 21 []) example_db) = []
 \<and> returned (Create example_handler (example_ctx stranger 20 []) example_db)
     = Some (NewError 403 msg_create_forbidden)
 \<and> mutation_calls (Create example_handler (example_ctx stranger 20 []) example_db) = []
 \<and> mutation_calls (Create example_handler (example_ctx owner 20 []) example_db)
     = [CallCreate \<lparr>IdNode = 10, IdHardware = 20\<rparr>]
 \<and> responses (Create example_handler (example_ctx owner 20 []) example_db)
     = [SendString 201 ''Success add new sensor'']"
  using
    Create_hardware_type_then_ownership [where h = example_handler
      and c = "example_ctx owner 21 []" and db = example_db
      and bodyPayload = "\<lparr>IdNode = 10, IdHardware = 21\<rparr>" and node = "\<lparr>Node.IdUser = 1\<rparr>"
      and hardware = "\<lparr>Type = ''Microcontroller''\<rparr>" and currentUser = owner]
    Create_hardware_type_then_ownership [where h = example_handler
      and c = "example_ctx stranger 20 []" and db = example_db
      and bodyPayload = "\<lparr>IdNode = 10, IdHardware = 20\<rparr>" and node = "\<lparr>Node.IdUser = 1\<rparr>"
      and hardware = "\<lparr>Type = ''Sensor''\<rparr>" and currentUser = stranger]
    Create_hardware_type_then_ownership [where h = example_handler
      and c = "example_ctx owner 20 []" and db = example_db
      and bodyPayload = "\<lparr>IdNode = 10, IdHardware = 20\<rparr>" and node = "\<lparr>Node.IdUser = 1\<rparr>"
      and hardware = "\<lparr>Type = ''Sensor''\<rparr>" and currentUser = owner]
  by (simp add: example_defs)

text \<open>
  C8. \<^verbatim>\<open>Create\<close> has no admin override. Its whole result is the same whatever the
  \<^verbatim>\<open>IsAdmin\<close> flag of the authenticated user is, and an admin who does not own the
  node gets the 403 error, with no call of \<^verbatim>\<open>repository.Create\<close>.
\<close>

theorem Create_no_admin_override:
  "Create h (c\<lparr>GetAuthentication := Inr (currentUser\<lparr>IsAdmin := b\<rparr>)\<rparr>) db
     = Create h (c\<lparr>GetAuthentication := Inr currentUser\<rparr>) db
 \<and> (ParseBody_SensorCreate c = Inr bodyPayload \<and> db_Begin h = None
      \<and> nodeRepository_GetById h db (IdNode bodyPayload) = Inr node
      \<and> hardwareRepository_GetById h db (IdHardware bodyPayload) = Inr hardware
      \<and> ToLower (Type hardware) = ''sensor''
      \<and> GetAuthentication c = Inr currentUser \<and> IsAdmin currentUser
      \<and> User.IdUser currentUser \<noteq> Node.IdUser node
    \<longrightarrow> returned (Create h c db) = Some (NewError 403 msg_create_forbidden)
      \<and> mutation_calls (Create h c db) = [])"
  by (auto simp add: Create_def try_call_def try_mutation_def respond_def return_error_def
        CommitOrRollback_def Begin_def mutation_calls_def Let_def
      split: sum.splits option.splits prod.splits)

text \<open>On the small deployment: the admin, user 3, may not create a sensor under node 10.\<close>

theorem Create_no_admin_override_witness:
  "IsAdmin admin \<and> User.IdUser admin \<noteq> 1
 \<and> returned (Create example_handler (example_ctx admin 20 []) example_db)
     = Some (NewError 403 msg_create_forbidden)
 \<and> mutation_calls (Create example_handler (example_ctx admin 20 []) example_db) = []"
  using
    Create_no_admin_override [where h = example_handler
      and c = "example_ctx admin 20 []" and db = example_db
      and bodyPayload = "\<lparr>IdNode = 10, IdHardware = 20\<rparr>" and node = "\<lparr>Node.IdUser = 1\<rparr>"
      and hardware = "\<lparr>Type = ''Sensor''\<rparr>" and currentUser = admin]
  by (simp add: example_defs)

text \<open>
  C10. In \<^verbatim>\<open>Create\<close> the check of the hardware type comes before authentication. Two
  requests with the same parsed body, for which the node and the hardware are found and the
  lowercased hardware type is not \<^verbatim>\<open>sensor\<close>, return the same 400 error, whatever
  authentication would have answered: it is not called.
\<close>

theorem Create_hardware_type_before_authentication:
  assumes "ParseBody_SensorCreate c1 = Inr bodyPayload"
    and "ParseBody_SensorCreate c2 = Inr bodyPayload"
    and "db_Begin h1 = None" and "db_Begin h2 = None"
    and "nodeRepository_GetById h1 db1 (IdNode bodyPayload) = Inr node"
    and "nodeRepository_GetById h2 db2 (IdNode bodyPayload) = Inr node"
    and "hardwareRepository_GetById h1 db1 (IdHardware bodyPayload) = Inr hardware"
    and "hardwareRepository_GetById h2 db2 (IdHardware bodyPayload) = Inr hardware"
    and "ToLower (Type hardware) \<noteq> ''sensor''"
  shows "returned (Create h1 c1 db1) = Some (NewError 400 msg_hardware_type)
       \<and> returned (Create h2 c2 db2) = returned (Create h1 c1 db1)
       \<and> CallGetAuthentication \<notin> fst ` set (calls (Create h1 c1 db1))
       \<and> CallGetAuthentication \<notin> fst ` set (calls (Create h2 c2 db2))"
  using assms by (simp add: Create_def step_sel Begin_ok Let_def)

text \<open>
  On the small deployment: the admin's request and a request whose authentication fails
  both name hardware 21 and get the same 400 error.
\<close>

theorem Create_hardware_type_before_authentication_witness:
  "returned (Create example_handler (example_ctx admin 21 []) example_db)
     = Some (NewError 400 msg_hardware_type)
 \<and> returned (Create example_handler
       ((example_ctx stranger 21 [])\<lparr>GetAuthentication := Inl (NewError 401 ''Unauthorized'')\<rparr>)
       example_db)
     = returned (Create example_handler (example_ctx admin 21 []) example_db)"
  using
    Create_hardware_type_before_authentication [where ?h1.0 = example_handler
      and ?h2.0 = example_handler and ?db1.0 = example_db and ?db2.0 = example_db
      and ?c1.0 = "example_ctx admin 21 []"
      and ?c2.0 = "(example_ctx stranger 21 [])
                     \<lparr>GetAuthentication := Inl (NewError 401 ''Unauthorized'')\<rparr>"
      and bodyPayload = "\<lparr>IdNode = 10, IdHardware = 21\<rparr>" and node = "\<lparr>Node.IdUser = 1\<rparr>"
      and hardware = "\<lparr>Type = ''Microcontroller''\<rparr>"]
  by (simp add: example_defs)

subsection \<open>Sorting the channels\<close>

lemma mset_insert_left: "mset (insert_left lt x ys) = add_mset x (mset ys)"
  by (induction ys) auto

lemma set_insert_left: "set (insert_left lt x ys) = insert x (set ys)"
  by (induction ys) auto

lemma sorted_insert_left:
  fixes key :: "'a \<Rightarrow> 'k::linorder"
  assumes "sorted_wrt (\<lambda>a b. key b \<le> key a) ys"
  shows "sorted_wrt (\<lambda>a b. key b \<le> key a) (insert_left (\<lambda>a b. key a < key b) x ys)"
  using assms by (induction ys) (auto simp: set_insert_left)

lemma mset_foldl_insert_left:
  "mset (foldl (\<lambda>p x. insert_left lt x p) acc xs) = mset acc + mset xs"
  by (induction xs arbitrary: acc) (auto simp: mset_insert_left)

lemma sorted_foldl_insert_left:
  fixes key :: "'a \<Rightarrow> 'k::linorder"
  assumes "sorted_wrt (\<lambda>a b. key b \<le> key a) acc"
  shows "sorted_wrt (\<lambda>a b. key b \<le> key a)
           (foldl (\<lambda>p x. insert_left (\<lambda>a b. key a < key b) x p) acc xs)"
  using assms by (induction xs arbitrary: acc) (auto simp: sorted_insert_left)

lemma mset_sort_Slice: "mset (sort_Slice lt xs) = mset xs"
  by (simp add: sort_Slice_def mset_foldl_insert_left)

lemma sorted_sort_Slice:
  fixes key :: "'a \<Rightarrow> 'k::linorder"
  shows "sorted (map key (sort_Slice (\<lambda>a b. key a < key b) xs))"
proof -
  have "sorted_wrt (\<lambda>a b. key b \<le> key a)
          (foldl (\<lambda>p x. insert_left (\<lambda>a b. key a < key b) x p) [] xs)"
    by (rule sorted_foldl_insert_left) simp
  then show ?thesis
    by (simp add: sort_Slice_def sorted_map sorted_wrt_rev)
qed

subsection \<open>Reading a sensor\<close>

text \<open>
  C4. When \<^verbatim>\<open>GetById\<close> takes the HTML branch (everything before it succeeded, the
  user is the owner or an admin, and \<^verbatim>\<open>c.Accepts\<close> chose \<^verbatim>\<open>text/html\<close>), the
  template \<^verbatim>\<open>sensor_detail\<close> receives under \<^verbatim>\<open>channel\<close> a list with the same
  channels as the repository's list, in ascending order of \<^verbatim>\<open>Time\<close>: of two adjacent
  rendered channels, the later one's time is not before the earlier one's.
\<close>

theorem GetById_html_channels_sorted_by_time:
  assumes "ParseIdFromUrlParameter c = Inr sensorId" and "db_Begin h = None"
    and "repository_GetById h db sensorId = Inr sensor"
    and "repository_GetSensorChannel h db sensorId = Inr channels"
    and "repository_GetIdUserWhoOwnSensorById h db sensorId = Inr sensorOwnerId"
    and "GetAuthentication c = Inr currentUser"
    and "sensorOwnerId = User.IdUser currentUser \<or> IsAdmin currentUser"
    and "Accepts c [''application/json'', ''text/html''] = ''text/html''"
  shows "\<exists>rendered.
           responses (GetById h c db) =
             [Render ''sensor_detail''
                [(''title'', Str ''Sensor Detail''), (''sensor'', Sensor sensor),
                 (''channel'', Channels rendered)]
                ''layouts/main'']
         \<and> mset rendered = mset channels
         \<and> sorted (map Time rendered)
         \<and> (\<forall>i. Suc i < length rendered \<longrightarrow>
               \<not> Before (Time (rendered ! Suc i)) (Time (rendered ! i)))"
proof -
  let ?rendered = "sort_Slice (\<lambda>ci cj. Before (Time ci) (Time cj)) channels"
  have resp: "responses (GetById h c db) =
      [Render ''sensor_detail''
         [(''title'', Str ''Sensor Detail''), (''sensor'', Sensor sensor),
          (''channel'', Channels ?rendered)]
         ''layouts/main'']"
    using assms by (auto simp add: GetById_def step_sel Begin_ok responses_def Let_def)
  have srt: "sorted (map Time ?rendered)"
    unfolding Before_def by (rule sorted_sort_Slice)
  have adj: "\<not> Before (Time (?rendered ! Suc i)) (Time (?rendered ! i))"
    if "Suc i < length ?rendered" for i
  proof -
    from srt that have "Time (?rendered ! i) \<le> Time (?rendered ! Suc i)"
      by (auto simp add: sorted_iff_nth_Suc)
    then show ?thesis by (simp add: Before_def)
  qed
  show ?thesis
    using resp srt adj mset_sort_Slice by blast
qed

text \<open>
  On the small deployment the repository hands the channels back at times 30, 10, 20, and
  the owner asks for HTML.
\<close>

theorem GetById_html_channels_sorted_by_time_witness:
  "\<exists>rendered.
     responses (GetById example_handler (example_ctx owner 20 ''text/html'') example_db) =
       [Render ''sensor_detail''
          [(''title'', Str ''Sensor Detail''), (''sensor'', Sensor ''thermometer''),
           (''channel'', Channels rendered)]
          ''layouts/main'']
   \<and> mset rendered = mset [\<lparr>Time = 30, Value = 5\<rparr>, \<lparr>Time = 10, Value = 7\<rparr>, \<lparr>Time = 20, Value = 6\<rparr>]
   \<and> sorted (map Time rendered)"
proof -
  have "\<exists>rendered.
     responses (GetById example_handler (example_ctx owner 20 ''text/html'') example_db) =
       [Render ''sensor_detail''
          [(''title'', Str ''Sensor Detail''), (''sensor'', Sensor ''thermometer''),
           (''channel'', Channels rendered)]
          ''layouts/main'']
   \<and> mset rendered = mset [\<lparr>Time = 30, Value = 5\<rparr>, \<lparr>Time = 10, Value = 7\<rparr>, \<lparr>Time = 20, Value = 6\<rparr>]
   \<and> sorted (map Time rendered)
   \<and> (\<forall>i. Suc i < length rendered \<longrightarrow>
         \<not> Before (Time (rendered ! Suc i)) (Time (rendered ! i)))"
    by (rule GetById_html_channels_sorted_by_time
          [where sensorId = 7 and sensorOwnerId = 1 and currentUser = owner])
       (simp_all add: example_defs)
  then show ?thesis by blast
qed

text \<open>
  C9. When \<^verbatim>\<open>GetById\<close> takes the JSON branch (everything before it succeeded, the
  user is the owner or an admin, and \<^verbatim>\<open>c.Accepts\<close> chose anything but
  \<^verbatim>\<open>text/html\<close>), the body is the sensor with exactly the list that
  \<^verbatim>\<open>GetSensorChannel\<close> returned, in the repository's order: it is not sorted.
\<close>

theorem GetById_json_channels_in_repository_order:
  assumes "ParseIdFromUrlParameter c = Inr sensorId" and "db_Begin h = None"
    and "repository_GetById h db sensorId = Inr sensor"
    and "repository_GetSensorChannel h db sensorId = Inr channels"
    and "repository_GetIdUserWhoOwnSensorById h db sensorId = Inr sensorOwnerId"
    and "GetAuthentication c = Inr currentUser"
    and "sensorOwnerId = User.IdUser currentUser \<or> IsAdmin currentUser"
    and "Accepts c [''application/json'', ''text/html''] \<noteq> ''text/html''"
  shows "responses (GetById h c db) = [JSON 200 (SensorWithChannel sensor channels)]"
  using assms by (auto simp add: GetById_def step_sel Begin_ok responses_def Let_def)

text \<open>On the small deployment the admin asks for JSON and gets the times 30, 10, 20.\<close>

theorem GetById_json_channels_in_repository_order_witness:
  "responses (GetById example_handler (example_ctx admin 20 ''application/json'') example_db) =
     [JSON 200 (SensorWithChannel ''thermometer''
        [\<lparr>Time = 30, Value = 5\<rparr>, \<lparr>Time = 10, Value = 7\<rparr>, \<lparr>Time = 20, Value = 6\<rparr>])]"
  by (rule GetById_json_channels_in_repository_order
        [where sensorId = 7 and sensorOwnerId = 1 and currentUser = admin])
     (simp_all add: example_defs)



subsection \<open>Errors on the way\<close>


















subsection \<open>Transactions on the error paths\<close>




subsection \<open>The edit form\<close>

text \<open>
  C3. \<^verbatim>\<open>UpdateForm\<close> run at a request of the stranger (user 2, no admin) for sensor 7,
  which user 1 owns: the method returns no error and renders \<^verbatim>\<open>sensor_form\<close> filled
  with the sensor. Its trace has neither \<^verbatim>\<open>GetIdUserWhoOwnSensorById\<close> nor
  \<^verbatim>\<open>GetAuthentication\<close>. \<^verbatim>\<open>GetById\<close> refuses the same request with the 403 error.
\<close>

theorem UpdateForm_renders_for_stranger:
  "returned (UpdateForm example_handler (example_ctx stranger 20 ''text/html'') example_db) = None
 \<and> map fst (calls (UpdateForm example_handler (example_ctx stranger 20 ''text/html'') example_db)) =
     [CallParseIdFromUrlParameter, CallBegin, CallGetById 7,
      CallRespond (Render ''sensor_form''
        [(''title'', Str ''Edit Sensor''), (''sensor'', Sensor ''thermometer''),
         (''edit'', Bool True)]
        ''layouts/main''), CallCommit]
 \<and> repository_GetIdUserWhoOwnSensorById example_handler example_db 7 = Inr 1
 \<and> GetAuthentication (example_ctx stranger 20 ''text/html'') = Inr stranger
 \<and> User.IdUser stranger = 2 \<and> \<not> IsAdmin stranger
 \<and> returned (GetById example_handler (example_ctx stranger 20 ''text/html'') example_db) =
     Some (NewError 403 msg_see_forbidden)"
  by (simp add: UpdateForm_def GetById_def step_sel Begin_def example_defs)

end
